theory Spec2Isabelle
  imports Complex_Main "HOL-Library.Char_ord" "HOL-Library.List_Lexorder" "HOL-Library.Sublist"
begin

section \<open>Data model (types/portfolio.ts)\<close>

text \<open>
  JavaScript numbers are modelled as exact reals: the embedding follows the arithmetic the
  source writes down and leaves IEEE-754 rounding of the intermediate results aside.
  The concrete ledgers used below only involve values that a double represents exactly
  wherever a tie decides the result.
\<close>

datatype TransactionType = Buy | Sell

record TradeRecord =
  date :: string
  symbol :: string
  quantity :: real
  price :: real
  transactionType :: TransactionType

record StockPrice =
  symbol :: string
  price :: real
  change :: real
  changePercent :: real
  timestamp :: real

record Holding =
  symbol :: string
  quantity :: real
  averagePrice :: real
  investedValue :: real
  currentValue :: real
  pnl :: real
  pnlPercent :: real

record PortfolioSummary =
  totalInvested :: real
  totalCurrentValue :: real
  totalPnL :: real
  totalPnLPercent :: real
  holdings :: "Holding list"

text \<open>
  The accumulator objects of the source: \<open>{ quantity, totalCost }\<close> in the growth
  reconstruction, extended by \<open>trades\<close> in \<open>calculateHoldings\<close>.
\<close>

record Pos =
  quantity :: real
  totalCost :: real

record PosT = Pos +
  trades :: "TradeRecord list"

record PnL =
  absolute :: real
  percentage :: real

record GrowthPoint =
  date :: string
  value_pt :: real

section \<open>The JavaScript \<open>Map\<close>: an association list in insertion order\<close>

type_synonym ('k, 'v) JsMap = "('k \<times> 'v) list"

definition Map_get :: "('k, 'v) JsMap \<Rightarrow> 'k \<Rightarrow> 'v option" where
  "Map_get m k = map_of m k"

text \<open>\<open>Map.set\<close> overwrites an existing key in place and appends a new key at the end.\<close>

primrec Map_set :: "('k, 'v) JsMap \<Rightarrow> 'k \<Rightarrow> 'v \<Rightarrow> ('k, 'v) JsMap" where
  "Map_set [] k v = [(k, v)]"
| "Map_set (p # ps) k v = (if fst p = k then (k, v) # ps else p # Map_set ps k v)"

definition Map_delete :: "('k, 'v) JsMap \<Rightarrow> 'k \<Rightarrow> ('k, 'v) JsMap" where
  "Map_delete m k = filter (\<lambda>p. fst p \<noteq> k) m"

section \<open>Rounding\<close>

text \<open>
  \<open>Math.round\<close> returns the nearest integer, a tie going to the larger one.
  \<open>cents v\<close> is the expression \<open>Math.round(v * 100) / 100\<close> that the source writes at
  every output.
\<close>

definition Math_round :: "real \<Rightarrow> real" where
  "Math_round x = of_int \<lfloor>x + 1 / 2\<rfloor>"

definition cents :: "real \<Rightarrow> real" where
  "cents v = Math_round (v * 100) / 100"

section \<open>portfolioCalculations.ts\<close>

subsection \<open>calculateHoldings\<close>

text \<open>
  \<open>const avgCostPerShare = existing.quantity > 0 ? existing.totalCost / existing.quantity : 0\<close>
  (the same line in \<open>calculateHoldings\<close> and in \<open>calculatePortfolioGrowthOverTime\<close>).
\<close>

definition avgCostPerShare :: "'a Pos_scheme \<Rightarrow> real" where
  "avgCostPerShare existing =
     (if Pos.quantity existing > 0 then totalCost existing / Pos.quantity existing else 0)"

text \<open>\<open>holdings.get(sym) || { quantity: 0, totalCost: 0, trades: [] }\<close>\<close>

definition existing_of :: "(string, PosT) JsMap \<Rightarrow> string \<Rightarrow> PosT" where
  "existing_of hs smb =
     (case Map_get hs smb of
        Some e \<Rightarrow> e
      | None \<Rightarrow> \<lparr>Pos.quantity = 0, totalCost = 0, trades = []\<rparr>)"

text \<open>
  The body of \<open>tradeHistory.forEach\<close>. The \<open>console.warn\<close> on a negative quantity
  changes nothing that is returned and is left out.
\<close>

definition holdings_trade ::
  "TradeRecord \<Rightarrow> (string, PosT) JsMap \<Rightarrow> (string, PosT) JsMap" where
  "holdings_trade trade hs =
     (let existing = existing_of hs (TradeRecord.symbol trade);
          updated =
            (case transactionType trade of
               Buy \<Rightarrow>
                 existing\<lparr>Pos.quantity := Pos.quantity existing + TradeRecord.quantity trade,
                          totalCost := totalCost existing
                            + TradeRecord.quantity trade * TradeRecord.price trade\<rparr>
             | Sell \<Rightarrow>
                 (let costToReduce = TradeRecord.quantity trade * avgCostPerShare existing
                  in existing\<lparr>Pos.quantity := Pos.quantity existing - TradeRecord.quantity trade,
                              totalCost := totalCost existing - costToReduce\<rparr>))
      in Map_set hs (TradeRecord.symbol trade)
           (updated\<lparr>trades := trades updated @ [trade]\<rparr>))"

text \<open>The raw accumulator after the loop, before the filter.\<close>

definition holdings_acc :: "TradeRecord list \<Rightarrow> (string, PosT) JsMap" where
  "holdings_acc tradeHistory = fold holdings_trade tradeHistory []"

definition calculateHoldings :: "TradeRecord list \<Rightarrow> (string, PosT) JsMap" where
  "calculateHoldings tradeHistory =
     filter (\<lambda>(key, val). Pos.quantity val > 0) (holdings_acc tradeHistory)"

subsection \<open>calculateAveragePrice, calculateInvestedValue, calculateCurrentValue\<close>

definition calculateAveragePrice :: "string \<Rightarrow> TradeRecord list \<Rightarrow> real" where
  "calculateAveragePrice smb trs =
     (let symbolTrades =
            filter (\<lambda>trade. TradeRecord.symbol trade = smb \<and> transactionType trade = Buy) trs
      in if length symbolTrades = 0 then 0
         else
           (let totalQuantity =
                  foldl (\<lambda>sum trade. sum + TradeRecord.quantity trade) 0 symbolTrades;
                totalValue =
                  foldl (\<lambda>sum trade. sum
                           + TradeRecord.quantity trade * TradeRecord.price trade) 0 symbolTrades
            in if totalQuantity > 0 then totalValue / totalQuantity else 0))"

definition calculateInvestedValue :: "TradeRecord list \<Rightarrow> real" where
  "calculateInvestedValue tradeHistory =
     foldl (\<lambda>total trade. total + TradeRecord.quantity trade * TradeRecord.price trade) 0
       (filter (\<lambda>trade. transactionType trade = Buy) tradeHistory)"

definition calculateCurrentValue ::
  "(string, StockPrice) JsMap \<Rightarrow> (string, 'a Pos_scheme) JsMap \<Rightarrow> real" where
  "calculateCurrentValue livePrices hs =
     fold (\<lambda>(sym, holding) totalValue.
             case Map_get livePrices sym of
               Some currentPrice \<Rightarrow>
                 if Pos.quantity holding > 0
                 then totalValue + Pos.quantity holding * StockPrice.price currentPrice
                 else totalValue
             | None \<Rightarrow> totalValue)
       hs 0"

subsection \<open>calculatePnL\<close>

definition calculatePnL :: "real \<Rightarrow> real \<Rightarrow> PnL" where
  "calculatePnL invested current =
     (let abs_pnl = current - invested;
          pct = (if invested > 0 then (abs_pnl / invested) * 100 else 0)
      in \<lparr>absolute = cents abs_pnl, percentage = cents pct\<rparr>)"

subsection \<open>calculatePortfolioSummary\<close>

text \<open>The body of \<open>holdings.forEach\<close> that builds one \<open>Holding\<close>.\<close>

definition mk_holding :: "(string, StockPrice) JsMap \<Rightarrow> string \<times> PosT \<Rightarrow> Holding" where
  "mk_holding livePrices entry =
     (let sym = fst entry; holding = snd entry;
          currentPrice = Map_get livePrices sym;
          avgPrice = (if Pos.quantity holding > 0
                      then totalCost holding / Pos.quantity holding else 0);
          curValue = (case currentPrice of
                        Some cp \<Rightarrow> Pos.quantity holding * StockPrice.price cp
                      | None \<Rightarrow> 0);
          invValue = totalCost holding;
          stockPnL = calculatePnL invValue curValue
      in \<lparr>Holding.symbol = sym,
          Holding.quantity = Pos.quantity holding,
          averagePrice = cents avgPrice,
          investedValue = cents invValue,
          currentValue = cents curValue,
          pnl = absolute stockPnL,
          pnlPercent = percentage stockPnL\<rparr>)"

text \<open>
  \<open>holdingsArray.sort((a, b) => b.currentValue - a.currentValue)\<close>: a stable sort,
  descending by \<open>currentValue\<close>.
\<close>

definition calculatePortfolioSummary ::
  "TradeRecord list \<Rightarrow> (string, StockPrice) JsMap \<Rightarrow> PortfolioSummary" where
  "calculatePortfolioSummary tradeHistory livePrices =
     (let hs = calculateHoldings tradeHistory;
          totInvested = calculateInvestedValue tradeHistory;
          totCurrent = calculateCurrentValue livePrices hs;
          p = calculatePnL totInvested totCurrent;
          holdingsArray = map (mk_holding livePrices) hs
      in \<lparr>totalInvested = cents totInvested,
          totalCurrentValue = cents totCurrent,
          totalPnL = absolute p,
          totalPnLPercent = percentage p,
          holdings = sort_key (\<lambda>h. - currentValue h) holdingsArray\<rparr>)"

subsection \<open>calculatePortfolioGrowthOverTime\<close>

text \<open>
  The body of \<open>dayTrades.forEach\<close>: the same accounting as above on
  \<open>{ quantity, totalCost }\<close>, every side other than \<open>buy\<close> taking the sell branch, and
  the symbol deleted from the map as soon as its quantity is not positive.
\<close>

definition growth_trade ::
  "TradeRecord \<Rightarrow> (string, Pos) JsMap \<Rightarrow> (string, Pos) JsMap" where
  "growth_trade trade hs =
     (let existing = (case Map_get hs (TradeRecord.symbol trade) of
                        Some e \<Rightarrow> e
                      | None \<Rightarrow> \<lparr>Pos.quantity = 0, totalCost = 0\<rparr>);
          updated =
            (if transactionType trade = Buy
             then existing\<lparr>Pos.quantity := Pos.quantity existing + TradeRecord.quantity trade,
                           totalCost := totalCost existing
                             + TradeRecord.quantity trade * TradeRecord.price trade\<rparr>
             else
               (let costToReduce = TradeRecord.quantity trade * avgCostPerShare existing
                in existing\<lparr>Pos.quantity := Pos.quantity existing - TradeRecord.quantity trade,
                            totalCost := totalCost existing - costToReduce\<rparr>))
      in if Pos.quantity updated > 0
         then Map_set hs (TradeRecord.symbol trade) updated
         else Map_delete hs (TradeRecord.symbol trade))"

text \<open>
  The body of \<open>dates.forEach\<close>, on the pair of the two locals it mutates: the running
  \<open>holdings\<close> map and \<open>growthData\<close>.
\<close>

definition growth_date ::
  "(string, TradeRecord list) JsMap \<Rightarrow> (string, StockPrice) JsMap \<Rightarrow> string
   \<Rightarrow> (string, Pos) JsMap \<times> GrowthPoint list \<Rightarrow> (string, Pos) JsMap \<times> GrowthPoint list" where
  "growth_date tradesByDate livePrices d st =
     (let dayTrades = (case Map_get tradesByDate d of Some ts \<Rightarrow> ts | None \<Rightarrow> []);
          hs = fold growth_trade dayTrades (fst st);
          portfolioValue =
            fold (\<lambda>(sy, holding) pv.
                    case Map_get livePrices sy of
                      Some currentPrice \<Rightarrow>
                        if Pos.quantity holding > 0
                        then pv + Pos.quantity holding * StockPrice.price currentPrice
                        else pv
                    | None \<Rightarrow> pv)
              hs 0
      in (hs, snd st @ [\<lparr>GrowthPoint.date = d, value_pt = cents portfolioValue\<rparr>]))"

text \<open>\<open>tradesByDate\<close>: the sorted trades grouped under their date string.\<close>

definition group_by_date :: "TradeRecord list \<Rightarrow> (string, TradeRecord list) JsMap" where
  "group_by_date sortedTrades =
     fold (\<lambda>trade m.
             Map_set m (TradeRecord.date trade)
               ((case Map_get m (TradeRecord.date trade) of Some ts \<Rightarrow> ts | None \<Rightarrow> [])
                @ [trade]))
       sortedTrades []"

definition growth_loop ::
  "(string, TradeRecord list) JsMap \<Rightarrow> (string, StockPrice) JsMap \<Rightarrow> string list
   \<Rightarrow> (string, Pos) JsMap \<times> GrowthPoint list" where
  "growth_loop tradesByDate livePrices dates =
     fold (growth_date tradesByDate livePrices) dates ([], [])"

text \<open>
  \<open>getTime\<close> stands for \<open>new Date(s).getTime()\<close> of the host, a parameter of the model;
  the ledger's dates are the valid \<open>YYYY-MM-DD\<close> strings of \<open>parseDate\<close>, so the result is
  a number and never NaN. The comparator sort is stable;
  \<open>Array.from(tradesByDate.keys()).sort()\<close> is the default sort of strings, by code
  units.
\<close>

definition calculatePortfolioGrowthOverTime ::
  "(string \<Rightarrow> int) \<Rightarrow> TradeRecord list \<Rightarrow> (string, StockPrice) JsMap \<Rightarrow> GrowthPoint list" where
  "calculatePortfolioGrowthOverTime getTime tradeHistory livePrices =
     (if length tradeHistory = 0 then []
      else
        (let sortedTrades = sort_key (\<lambda>t. getTime (TradeRecord.date t)) tradeHistory;
             tradesByDate = group_by_date sortedTrades;
             dates = sort (map fst tradesByDate)
         in snd (growth_loop tradesByDate livePrices dates)))"


subsection \<open>calculateSectorAllocation\<close>

text \<open>The static table \<open>sectorMap\<close>; a symbol it does not list falls under \<open>Other\<close>.\<close>

definition sectorMap :: "(string \<times> string) list" where
  "sectorMap =
     [(''AAPL'', ''Technology''), (''GOOGL'', ''Technology''), (''MSFT'', ''Technology''),
      (''AMZN'', ''Consumer Discretionary''), (''TSLA'', ''Consumer Discretionary''),
      (''META'', ''Technology''), (''NVDA'', ''Technology''),
      (''NFLX'', ''Communication Services''), (''JPM'', ''Financial Services''),
      (''JNJ'', ''Healthcare''), (''PG'', ''Consumer Staples''), (''V'', ''Financial Services''),
      (''WMT'', ''Consumer Staples''), (''DIS'', ''Communication Services''),
      (''MA'', ''Financial Services'')]"

record SectorDatum =
  name_sd :: string
  value_sd :: real
  percentage_sd :: real

text \<open>
  The body of the first \<open>holdings.forEach\<close>, on the pair of \<open>sectorTotals\<close> and
  \<open>totalValue\<close>.
\<close>

definition sector_step ::
  "Holding \<Rightarrow> (string, real) JsMap \<times> real \<Rightarrow> (string, real) JsMap \<times> real" where
  "sector_step holding st =
     (let sector = (case map_of sectorMap (Holding.symbol holding) of
                      Some sc \<Rightarrow> sc
                    | None \<Rightarrow> ''Other'');
          currentTotal = (case Map_get (fst st) sector of Some x \<Rightarrow> x | None \<Rightarrow> 0)
      in (Map_set (fst st) sector (currentTotal + currentValue holding),
          snd st + currentValue holding))"

definition calculateSectorAllocation :: "Holding list \<Rightarrow> SectorDatum list" where
  "calculateSectorAllocation hl =
     (let st = fold sector_step hl ([], 0);
          sectorTotals = fst st;
          totalValue = snd st;
          sectorData =
            map (\<lambda>(sector, val).
                   let pct = (if totalValue > 0 then (val / totalValue) * 100 else 0)
                   in \<lparr>name_sd = sector, value_sd = cents val, percentage_sd = cents pct\<rparr>)
              sectorTotals
      in sort_key (\<lambda>d. - value_sd d) sectorData)"

section \<open>The wording of the specification, for comparison\<close>

text \<open>
  Section 4.1 of the specification, on a sell: \<open>avgCostPerShare = costBasis / quantity\<close>
  (0 if quantity is 0). \<open>spec_position\<close> replays the trades of one symbol with it.
\<close>

definition spec_apply :: "TradeRecord \<Rightarrow> Pos \<Rightarrow> Pos" where
  "spec_apply trade p =
     (case transactionType trade of
        Buy \<Rightarrow> \<lparr>Pos.quantity = Pos.quantity p + TradeRecord.quantity trade,
                 totalCost = totalCost p + TradeRecord.quantity trade * TradeRecord.price trade\<rparr>
      | Sell \<Rightarrow>
          (let avg = (if Pos.quantity p = 0 then 0 else totalCost p / Pos.quantity p)
           in \<lparr>Pos.quantity = Pos.quantity p - TradeRecord.quantity trade,
               totalCost = totalCost p - TradeRecord.quantity trade * avg\<rparr>))"

definition spec_position :: "string \<Rightarrow> TradeRecord list \<Rightarrow> Pos" where
  "spec_position smb trs =
     fold (\<lambda>trade p. if TradeRecord.symbol trade = smb then spec_apply trade p else p) trs
       \<lparr>Pos.quantity = 0, totalCost = 0\<rparr>"



section \<open>Numbers with the special values of a double\<close>

text \<open>
  To state what the guards of the divisions achieve, and what they do not, the values
  a double can take beside a finite number are added: the two infinities and NaN. A
  finite result whose magnitude reaches \<open>2^1024 - 2^970\<close> (half a unit above the largest
  finite double) overflows to an infinity; the rounding of the results that stay in range
  and the sign of zero are left aside. A division by zero gives an infinity, or NaN for
  0 / 0, as in the source's arithmetic.
\<close>

datatype jsnum = Fin real | PInf | NInf | NaN

definition DBL_OVERFLOW :: real where
  "DBL_OVERFLOW = 2 ^ 1024 - 2 ^ 970"

definition to_js :: "real \<Rightarrow> jsnum" where
  "to_js x = (if DBL_OVERFLOW \<le> x then PInf else if x \<le> - DBL_OVERFLOW then NInf else Fin x)"

fun jsub :: "jsnum \<Rightarrow> jsnum \<Rightarrow> jsnum" where
  "jsub (Fin a) (Fin b) = to_js (a - b)"
| "jsub NaN y = NaN"
| "jsub x NaN = NaN"
| "jsub PInf PInf = NaN"
| "jsub NInf NInf = NaN"
| "jsub PInf y = PInf"
| "jsub NInf y = NInf"
| "jsub (Fin a) PInf = NInf"
| "jsub (Fin a) NInf = PInf"

fun jmul :: "jsnum \<Rightarrow> jsnum \<Rightarrow> jsnum" where
  "jmul (Fin a) (Fin b) = to_js (a * b)"
| "jmul NaN y = NaN"
| "jmul x NaN = NaN"
| "jmul PInf (Fin b) = (if b = 0 then NaN else if 0 < b then PInf else NInf)"
| "jmul NInf (Fin b) = (if b = 0 then NaN else if 0 < b then NInf else PInf)"
| "jmul (Fin a) PInf = (if a = 0 then NaN else if 0 < a then PInf else NInf)"
| "jmul (Fin a) NInf = (if a = 0 then NaN else if 0 < a then NInf else PInf)"
| "jmul PInf PInf = PInf"
| "jmul NInf NInf = PInf"
| "jmul PInf NInf = NInf"
| "jmul NInf PInf = NInf"

fun jdiv :: "jsnum \<Rightarrow> jsnum \<Rightarrow> jsnum" where
  "jdiv (Fin a) (Fin b) =
     (if b = 0 then (if a = 0 then NaN else if 0 < a then PInf else NInf)
      else to_js (a / b))"
| "jdiv NaN y = NaN"
| "jdiv x NaN = NaN"
| "jdiv (Fin a) PInf = Fin 0"
| "jdiv (Fin a) NInf = Fin 0"
| "jdiv PInf (Fin b) = (if 0 \<le> b then PInf else NInf)"
| "jdiv NInf (Fin b) = (if 0 \<le> b then NInf else PInf)"
| "jdiv PInf y = NaN"
| "jdiv NInf y = NaN"

text \<open>\<open>x > 0\<close>: false for NaN.\<close>

fun jgt0 :: "jsnum \<Rightarrow> bool" where
  "jgt0 (Fin a) = (0 < a)"
| "jgt0 PInf = True"
| "jgt0 NInf = False"
| "jgt0 NaN = False"

fun jround :: "jsnum \<Rightarrow> jsnum" where
  "jround (Fin a) = Fin (Math_round a)"
| "jround x = x"

text \<open>
  \<open>calculatePnL\<close> (lines 72 to 80) on these numbers, and the three guarded quotients:
  \<open>quantity > 0 ? totalCost / quantity : 0\<close> (lines 15, 95 and 154, and line 50 with
  \<open>totalQuantity\<close> and \<open>totalValue\<close>) and \<open>totalValue > 0 ? (value / totalValue) * 100 : 0\<close>
  (line 219).
\<close>

definition calculatePnL_js :: "jsnum \<Rightarrow> jsnum \<Rightarrow> jsnum \<times> jsnum" where
  "calculatePnL_js invested current =
     (let abs_pnl = jsub current invested;
          pct = (if jgt0 invested then jmul (jdiv abs_pnl invested) (Fin 100) else Fin 0)
      in (jdiv (jround (jmul abs_pnl (Fin 100))) (Fin 100),
          jdiv (jround (jmul pct (Fin 100))) (Fin 100)))"

definition avgCostPerShare_js :: "jsnum \<Rightarrow> jsnum \<Rightarrow> jsnum" where
  "avgCostPerShare_js qty cost = (if jgt0 qty then jdiv cost qty else Fin 0)"

definition sectorPercentage_js :: "jsnum \<Rightarrow> jsnum \<Rightarrow> jsnum" where
  "sectorPercentage_js val totalValue =
     (if jgt0 totalValue then jmul (jdiv val totalValue) (Fin 100) else Fin 0)"

section \<open>Concrete ledgers and quotes\<close>

text \<open>Shorthand for the record literals of the examples below.\<close>

abbreviation Trade ::
  "string \<Rightarrow> string \<Rightarrow> real \<Rightarrow> real \<Rightarrow> TransactionType \<Rightarrow> TradeRecord" where
  "Trade d s q p ty \<equiv>
     \<lparr>TradeRecord.date = d, TradeRecord.symbol = s, TradeRecord.quantity = q,
      TradeRecord.price = p, transactionType = ty\<rparr>"

abbreviation Quote :: "string \<Rightarrow> real \<Rightarrow> string \<times> StockPrice" where
  "Quote s p \<equiv>
     (s, \<lparr>StockPrice.symbol = s, StockPrice.price = p, change = 0, changePercent = 0,
          timestamp = 0\<rparr>)"

section \<open>Facts about the map operations\<close>

lemma Map_get_Map_set:
  "Map_get (Map_set m k v) k' = (if k' = k then Some v else Map_get m k')"
  by (induction m) (auto simp: Map_get_def)

lemma keys_Map_set:
  "set (map fst (Map_set m k v)) = insert k (set (map fst m))"
  by (induction m) auto

lemma distinct_Map_set:
  "distinct (map fst m) \<Longrightarrow> distinct (map fst (Map_set m k v))"
  by (induction m) (auto simp: keys_Map_set[simplified])



lemma existing_of_Map_set:
  "existing_of (Map_set m k v) k' = (if k' = k then v else existing_of m k')"
  by (simp add: existing_of_def Map_get_Map_set)

section \<open>The holdings aggregator\<close>

lemma holdings_acc_snoc:
  "holdings_acc (ts @ [t]) = holdings_trade t (holdings_acc ts)"
  by (simp add: holdings_acc_def)

lemma distinct_holdings_acc: "distinct (map fst (holdings_acc ts))"
proof (induction ts rule: rev_induct)
  case Nil
  show ?case by (simp add: holdings_acc_def)
next
  case (snoc t ts)
  then show ?case
    by (simp add: holdings_acc_snoc holdings_trade_def Let_def distinct_Map_set)
qed

text \<open>
  C1, as amended. The aggregator starts from the empty map and takes the trades in the
  given order. After a trade, the position of the trade's symbol is the previous one (or
  quantity 0, cost 0) with, on a buy, the trade's quantity added to the quantity and
  quantity times price added to the cost; on a sell, the quantity reduced by the trade's
  quantity and the cost by the trade's quantity times the average cost per share, which
  is cost / quantity when the held quantity is positive and 0 otherwise (also when it is
  negative). Every other symbol keeps its position, the function is total (a negative
  quantity is recorded, nothing fails), and the public view is the accumulator filtered
  to positive quantities.
\<close>

theorem holdings_step:
  "existing_of (holdings_acc (ts @ [t])) (TradeRecord.symbol t) =
     (let ex = existing_of (holdings_acc ts) (TradeRecord.symbol t) in
      case transactionType t of
        Buy \<Rightarrow> \<lparr>Pos.quantity = Pos.quantity ex + TradeRecord.quantity t,
                 totalCost = totalCost ex + TradeRecord.quantity t * TradeRecord.price t,
                 trades = trades ex @ [t]\<rparr>
      | Sell \<Rightarrow> \<lparr>Pos.quantity = Pos.quantity ex - TradeRecord.quantity t,
                  totalCost = totalCost ex - TradeRecord.quantity t *
                     (if Pos.quantity ex > 0 then totalCost ex / Pos.quantity ex else 0),
                  trades = trades ex @ [t]\<rparr>)
   \<and> (\<forall>s. s \<noteq> TradeRecord.symbol t \<longrightarrow>
          existing_of (holdings_acc (ts @ [t])) s = existing_of (holdings_acc ts) s)
   \<and> holdings_acc [] = []
   \<and> calculateHoldings ts = filter (\<lambda>(k, v). Pos.quantity v > 0) (holdings_acc ts)"
  by (auto simp: holdings_acc_snoc holdings_trade_def Let_def existing_of_Map_set
      avgCostPerShare_def holdings_acc_def calculateHoldings_def split: TransactionType.splits)

theorem holdings_step_witness:
  "map_option (\<lambda>v. (Pos.quantity v, totalCost v))
     (Map_get
        (holdings_acc ([Trade ''2024-01-15'' ''AAPL'' 100 150.50 Buy]
                       @ [Trade ''2024-02-01'' ''AAPL'' 50 155 Sell])) ''AAPL'')
     = Some (50, 7525)
   \<and> ''MSFT'' \<noteq> ''AAPL''
   \<and> existing_of
        (holdings_acc ([Trade ''2024-01-15'' ''AAPL'' 100 150.50 Buy]
                       @ [Trade ''2024-02-01'' ''AAPL'' 50 155 Sell])) ''MSFT''
     = \<lparr>Pos.quantity = 0, totalCost = 0, trades = []\<rparr>"
proof -
  have e: ?thesis by code_simp
  from holdings_step
    [of "[Trade ''2024-01-15'' ''AAPL'' 100 150.50 Buy]"
        "Trade ''2024-02-01'' ''AAPL'' 50 155 Sell"] e
  show ?thesis by -
qed

text \<open>
  The claim as the specification words it (the division skipped only when the quantity is
  0) fails once a symbol has been oversold: after buy 10 at 5 and sell 20 at 5 the position
  is quantity -10, cost -50; the further sell of 5 leaves the cost at -50 in the code and
  takes it to -75 in the specification's formula, so that after the final buy of 20 at 5
  the public view holds cost 50 where the formula gives 25.
\<close>

theorem spec_sell_counterexample:
  "map (\<lambda>(k, v). (k, Pos.quantity v, totalCost v))
     (calculateHoldings
        [Trade ''2024-01-02'' ''X'' 10 5 Buy, Trade ''2024-01-03'' ''X'' 20 5 Sell,
         Trade ''2024-01-04'' ''X'' 5 5 Sell, Trade ''2024-01-05'' ''X'' 20 5 Buy])
     = [(''X'', 5, 50)]
   \<and> spec_position ''X''
        [Trade ''2024-01-02'' ''X'' 10 5 Buy, Trade ''2024-01-03'' ''X'' 20 5 Sell,
         Trade ''2024-01-04'' ''X'' 5 5 Sell, Trade ''2024-01-05'' ''X'' 20 5 Buy]
     = \<lparr>Pos.quantity = 5, totalCost = 25\<rparr>"
  by code_simp

section \<open>The public holdings view\<close>

lemma map_of_filter_distinct:
  "distinct (map fst xs) \<Longrightarrow>
   map_of (filter P xs) k =
     (case map_of xs k of Some v \<Rightarrow> if P (k, v) then Some v else None | None \<Rightarrow> None)"
proof (induction xs)
  case Nil
  show ?case by simp
next
  case (Cons x xs)
  obtain a b where x: "x = (a, b)" by (cases x)
  from Cons.prems have notin: "a \<notin> fst ` set xs" and d: "distinct (map fst xs)"
    by (auto simp: x)
  have none: "map_of xs a = None" using notin by (simp add: map_of_eq_None_iff)
  show ?case
    using Cons.IH[OF d] none by (auto simp: x split: option.splits)
qed

lemma calculateHoldings_entry:
  "(k, v) \<in> set (calculateHoldings ts) \<longleftrightarrow>
     Map_get (holdings_acc ts) k = Some v \<and> Pos.quantity v > 0"
  using distinct_holdings_acc[of ts]
  by (auto simp: calculateHoldings_def Map_get_def)

lemma set_summary_holdings:
  "set (holdings (calculatePortfolioSummary ts prices)) =
     mk_holding prices ` set (calculateHoldings ts)"
  by (simp add: calculatePortfolioSummary_def Let_def)

lemma mk_holding_sel:
  "Holding.symbol (mk_holding prices e) = fst e"
  "Holding.quantity (mk_holding prices e) = Pos.quantity (snd e)"
  "averagePrice (mk_holding prices e) =
     cents (if Pos.quantity (snd e) > 0 then totalCost (snd e) / Pos.quantity (snd e) else 0)"
  "investedValue (mk_holding prices e) = cents (totalCost (snd e))"
  by (simp_all add: mk_holding_def Let_def)

text \<open>
  C6. Every entry of the aggregator's public view has a quantity above 0, and so has
  every Holding of the summary, whose symbols are exactly those of the view; a symbol
  whose accumulated quantity is 0 or below has no entry in the view.
\<close>

theorem holdings_view_positive:
  "(\<forall>(k, v) \<in> set (calculateHoldings ts). Pos.quantity v > 0)
   \<and> (\<forall>h \<in> set (holdings (calculatePortfolioSummary ts prices)). Holding.quantity h > 0)
   \<and> (\<forall>s v. Map_get (holdings_acc ts) s = Some v \<and> Pos.quantity v \<le> 0
          \<longrightarrow> Map_get (calculateHoldings ts) s = None)
   \<and> set (map Holding.symbol (holdings (calculatePortfolioSummary ts prices)))
       = set (map fst (calculateHoldings ts))"
proof (intro conjI)
  show "\<forall>(k, v) \<in> set (calculateHoldings ts). Pos.quantity v > 0"
    by (auto simp: calculateHoldings_def)
  then show "\<forall>h \<in> set (holdings (calculatePortfolioSummary ts prices)). Holding.quantity h > 0"
    by (auto simp: set_summary_holdings mk_holding_sel)
  show "\<forall>s v. Map_get (holdings_acc ts) s = Some v \<and> Pos.quantity v \<le> 0
          \<longrightarrow> Map_get (calculateHoldings ts) s = None"
  proof (intro allI impI)
    fix s v
    assume a: "Map_get (holdings_acc ts) s = Some v \<and> Pos.quantity v \<le> 0"
    have "map_of (filter (\<lambda>(key, val). Pos.quantity val > 0) (holdings_acc ts)) s = None"
      using a by (simp add: map_of_filter_distinct[OF distinct_holdings_acc] Map_get_def)
    then show "Map_get (calculateHoldings ts) s = None"
      by (simp add: calculateHoldings_def Map_get_def)
  qed
  show "set (map Holding.symbol (holdings (calculatePortfolioSummary ts prices)))
       = set (map fst (calculateHoldings ts))"
    by (simp add: set_summary_holdings image_image mk_holding_sel)
qed

theorem holdings_view_positive_witness:
  "map (\<lambda>(k, v). (k, Pos.quantity v, totalCost v))
     (holdings_acc [Trade ''2024-01-02'' ''X'' 10 5 Buy, Trade ''2024-01-03'' ''X'' 20 5 Sell,
                    Trade ''2024-01-04'' ''Y'' 1 2 Buy])
     = [(''X'', - 10, - 50), (''Y'', 1, 2)]
   \<and> map (\<lambda>(k, v). (k, Pos.quantity v, totalCost v))
     (calculateHoldings [Trade ''2024-01-02'' ''X'' 10 5 Buy,
        Trade ''2024-01-03'' ''X'' 20 5 Sell, Trade ''2024-01-04'' ''Y'' 1 2 Buy])
     = [(''Y'', 1, 2)]
   \<and> Map_get (calculateHoldings [Trade ''2024-01-02'' ''X'' 10 5 Buy,
          Trade ''2024-01-03'' ''X'' 20 5 Sell, Trade ''2024-01-04'' ''Y'' 1 2 Buy]) ''X'' = None
   \<and> map (\<lambda>h. (Holding.symbol h, Holding.quantity h))
       (holdings (calculatePortfolioSummary [Trade ''2024-01-02'' ''X'' 10 5 Buy,
          Trade ''2024-01-03'' ''X'' 20 5 Sell, Trade ''2024-01-04'' ''Y'' 1 2 Buy]
          [Quote ''Y'' 3]))
     = [(''Y'', 1)]"
proof -
  have e: ?thesis by code_simp
  from holdings_view_positive
    [of "[Trade ''2024-01-02'' ''X'' 10 5 Buy, Trade ''2024-01-03'' ''X'' 20 5 Sell,
          Trade ''2024-01-04'' ''Y'' 1 2 Buy]" "[Quote ''Y'' 3]"] e
  show ?thesis by -
qed

section \<open>The totals of the summary\<close>

lemma foldl_add_sum_list:
  "foldl (\<lambda>acc x. acc + f x) (a::real) xs = a + sum_list (map f xs)"
  by (induction xs arbitrary: a) simp_all

lemma fold_value_sum_list:
  "\<forall>(k, v) \<in> set hs. Pos.quantity v > 0 \<Longrightarrow>
   fold (\<lambda>(sy, holding) tv.
           case Map_get prices sy of
             Some cp \<Rightarrow> if Pos.quantity holding > 0
                        then tv + Pos.quantity holding * StockPrice.price cp else tv
           | None \<Rightarrow> tv) hs (a::real)
   = a + sum_list (map (\<lambda>(k, v). case Map_get prices k of
                                   Some cp \<Rightarrow> Pos.quantity v * StockPrice.price cp
                                 | None \<Rightarrow> 0) hs)"
  by (induction hs arbitrary: a) (auto split: option.splits)

text \<open>
  C2, as amended. \<open>totalInvested\<close> is the sum of quantity times price over all buy
  trades of the ledger (whether or not the symbol is still held, and not reduced by any
  sell), rounded once; \<open>totalCurrentValue\<close> is the sum over the holdings of the public
  view of their unrounded current values (quantity times quoted price, 0 without a quote),
  rounded once.
\<close>

theorem summary_totals:
  "totalInvested (calculatePortfolioSummary ts prices) =
     cents (sum_list (map (\<lambda>t. TradeRecord.quantity t * TradeRecord.price t)
                       (filter (\<lambda>t. transactionType t = Buy) ts)))
   \<and> totalCurrentValue (calculatePortfolioSummary ts prices) =
     cents (sum_list (map (\<lambda>(k, v). case Map_get prices k of
                                       Some cp \<Rightarrow> Pos.quantity v * StockPrice.price cp
                                     | None \<Rightarrow> 0)
                       (calculateHoldings ts)))"
proof -
  have pos: "\<forall>(k, v) \<in> set (calculateHoldings ts). Pos.quantity v > 0"
    by (auto simp: calculateHoldings_def)
  show ?thesis
    by (simp add: calculatePortfolioSummary_def Let_def calculateInvestedValue_def
        calculateCurrentValue_def foldl_add_sum_list fold_value_sum_list[OF pos])
qed

theorem summary_totals_witness:
  "totalInvested
     (calculatePortfolioSummary
        [Trade ''2024-01-15'' ''AAPL'' 100 150.50 Buy, Trade ''2024-02-01'' ''AAPL'' 50 155 Sell,
         Trade ''2024-02-02'' ''MSFT'' 1 0.375 Buy, Trade ''2024-02-02'' ''IBM'' 1 0.375 Buy]
        [Quote ''AAPL'' 160, Quote ''MSFT'' 0.375, Quote ''IBM'' 0.375]) = 15050.75
   \<and> totalCurrentValue
     (calculatePortfolioSummary
        [Trade ''2024-01-15'' ''AAPL'' 100 150.50 Buy, Trade ''2024-02-01'' ''AAPL'' 50 155 Sell,
         Trade ''2024-02-02'' ''MSFT'' 1 0.375 Buy, Trade ''2024-02-02'' ''IBM'' 1 0.375 Buy]
        [Quote ''AAPL'' 160, Quote ''MSFT'' 0.375, Quote ''IBM'' 0.375]) = 8000.75
   \<and> map currentValue (holdings
     (calculatePortfolioSummary
        [Trade ''2024-01-15'' ''AAPL'' 100 150.50 Buy, Trade ''2024-02-01'' ''AAPL'' 50 155 Sell,
         Trade ''2024-02-02'' ''MSFT'' 1 0.375 Buy, Trade ''2024-02-02'' ''IBM'' 1 0.375 Buy]
        [Quote ''AAPL'' 160, Quote ''MSFT'' 0.375, Quote ''IBM'' 0.375])) = [8000, 0.38, 0.38]"
proof -
  have e: ?thesis by code_simp
  from summary_totals
    [of "[Trade ''2024-01-15'' ''AAPL'' 100 150.50 Buy, Trade ''2024-02-01'' ''AAPL'' 50 155 Sell,
          Trade ''2024-02-02'' ''MSFT'' 1 0.375 Buy, Trade ''2024-02-02'' ''IBM'' 1 0.375 Buy]"
        "[Quote ''AAPL'' 160, Quote ''MSFT'' 0.375, Quote ''IBM'' 0.375]"] e
  show ?thesis by -
qed

text \<open>
  The claim as the specification words it (\<open>totalInvested\<close> as the sum of the cost bases
  of the holdings in the view) fails on the example ledger of the specification: the
  total is 15050, the gross buy, while the one holding has cost basis and
  \<open>investedValue\<close> 7525.
\<close>

theorem summary_totals_counterexample:
  "totalInvested
     (calculatePortfolioSummary
        [Trade ''2024-01-15'' ''AAPL'' 100 150.50 Buy, Trade ''2024-02-01'' ''AAPL'' 50 155 Sell]
        [Quote ''AAPL'' 160]) = 15050
   \<and> cents (sum_list (map (\<lambda>(k, v). totalCost v)
        (calculateHoldings
           [Trade ''2024-01-15'' ''AAPL'' 100 150.50 Buy,
            Trade ''2024-02-01'' ''AAPL'' 50 155 Sell]))) = 7525
   \<and> map investedValue (holdings
     (calculatePortfolioSummary
        [Trade ''2024-01-15'' ''AAPL'' 100 150.50 Buy, Trade ''2024-02-01'' ''AAPL'' 50 155 Sell]
        [Quote ''AAPL'' 160])) = [7525]"
  by code_simp

section \<open>The example ledger of the specification\<close>

text \<open>
  C3. For the ledger [buy AAPL 100 at 150.50 on 2024-01-15, sell AAPL 50 at 155.00 on
  2024-02-01] and the quote AAPL = 160.00, the holdings view has one position, AAPL with
  quantity 50 and cost basis 7525, and the summary has one Holding with averagePrice
  150.50, investedValue 7525, currentValue 8000, pnl 475 and pnlPercent 6.31.
\<close>

theorem example_ledger_holding:
  "map (\<lambda>(k, v). (k, Pos.quantity v, totalCost v))
     (calculateHoldings
        [Trade ''2024-01-15'' ''AAPL'' 100 150.50 Buy, Trade ''2024-02-01'' ''AAPL'' 50 155 Sell])
     = [(''AAPL'', 50, 7525)]
   \<and> holdings
       (calculatePortfolioSummary
          [Trade ''2024-01-15'' ''AAPL'' 100 150.50 Buy,
           Trade ''2024-02-01'' ''AAPL'' 50 155 Sell]
          [Quote ''AAPL'' 160])
     = [\<lparr>Holding.symbol = ''AAPL'', Holding.quantity = 50, averagePrice = 150.50,
         investedValue = 7525, currentValue = 8000, pnl = 475, pnlPercent = 6.31\<rparr>]"
  by code_simp

section \<open>The growth series\<close>

lemma group_fold_keys:
  "set (map fst (fold (\<lambda>trade m.
             Map_set m (TradeRecord.date trade)
               ((case Map_get m (TradeRecord.date trade) of Some ts \<Rightarrow> ts | None \<Rightarrow> [])
                @ [trade])) xs m0))
   = set (map fst m0) \<union> set (map TradeRecord.date xs)"
  by (induction xs arbitrary: m0) (auto simp: keys_Map_set[simplified])

lemma group_fold_distinct:
  "distinct (map fst m0) \<Longrightarrow>
   distinct (map fst (fold (\<lambda>trade m.
             Map_set m (TradeRecord.date trade)
               ((case Map_get m (TradeRecord.date trade) of Some ts \<Rightarrow> ts | None \<Rightarrow> [])
                @ [trade])) xs m0))"
  by (induction xs arbitrary: m0) (auto simp: distinct_Map_set)

lemma group_by_date_keys:
  "set (map fst (group_by_date xs)) = set (map TradeRecord.date xs)"
  "distinct (map fst (group_by_date xs))"
  unfolding group_by_date_def
  using group_fold_keys[of xs "[]"] group_fold_distinct[of "[]" xs] by simp_all

lemma growth_fold_dates:
  "map GrowthPoint.date (snd (fold (growth_date tbd prices) ds st))
     = map GrowthPoint.date (snd st) @ ds"
  by (induction ds arbitrary: st) (simp_all add: growth_date_def Let_def)

lemma growth_loop_dates:
  "map GrowthPoint.date (snd (growth_loop tbd prices ds)) = ds"
  by (simp add: growth_loop_def growth_fold_dates)

lemma growth_dates_eq:
  "map GrowthPoint.date (calculatePortfolioGrowthOverTime getTime ts prices)
     = sort (remdups (map TradeRecord.date ts))"
proof (cases "ts = []")
  case True
  then show ?thesis by (simp add: calculatePortfolioGrowthOverTime_def)
next
  case False
  let ?st = "sort_key (\<lambda>t. getTime (TradeRecord.date t)) ts"
  let ?ds = "sort (map fst (group_by_date ?st))"
  have out: "map GrowthPoint.date (calculatePortfolioGrowthOverTime getTime ts prices) = ?ds"
    using False by (simp add: calculatePortfolioGrowthOverTime_def Let_def growth_loop_dates)
  have s: "set ?ds = set (remdups (map TradeRecord.date ts))"
    by (simp add: group_by_date_keys[simplified])
  have d: "distinct ?ds" using group_by_date_keys(2)[of ?st] by simp
  have "?ds = sort (remdups (map TradeRecord.date ts))"
    by (rule sorted_distinct_set_unique) (use s d in simp_all)
  with out show ?thesis by simp
qed

text \<open>
  C4. The growth series has exactly one point per distinct date of the ledger, its dates
  are strictly ascending (in the order of the default string sort, which is the
  chronological order on the dates \<open>YYYY-MM-DD\<close> that the ingestion layer produces), and
  the empty ledger gives the empty series.
\<close>

theorem growth_series_dates:
  "sorted_wrt (<) (map GrowthPoint.date (calculatePortfolioGrowthOverTime getTime ts prices))
   \<and> set (map GrowthPoint.date (calculatePortfolioGrowthOverTime getTime ts prices))
       = set (map TradeRecord.date ts)
   \<and> length (calculatePortfolioGrowthOverTime getTime ts prices)
       = card (set (map TradeRecord.date ts))
   \<and> calculatePortfolioGrowthOverTime getTime [] prices = []"
proof (intro conjI)
  let ?out = "map GrowthPoint.date (calculatePortfolioGrowthOverTime getTime ts prices)"
  have eq: "?out = sort (remdups (map TradeRecord.date ts))" by (rule growth_dates_eq)
  have "sorted ?out" "distinct ?out" by (simp_all add: eq)
  then show "sorted_wrt (<) ?out" by (simp add: strict_sorted_iff)
  show "set ?out = set (map TradeRecord.date ts)" by (simp add: eq)
  have "length ?out = card (set (map TradeRecord.date ts))"
    unfolding eq by (simp add: length_remdups_card_conv)
  then show "length (calculatePortfolioGrowthOverTime getTime ts prices)
       = card (set (map TradeRecord.date ts))" by simp
  show "calculatePortfolioGrowthOverTime getTime [] prices = []"
    by (simp add: calculatePortfolioGrowthOverTime_def)
qed

theorem growth_series_dates_witness:
  "calculatePortfolioGrowthOverTime
     (\<lambda>s. if s = ''2024-01-15'' then 1705276800000 else 1706745600000)
     [Trade ''2024-02-01'' ''AAPL'' 50 155 Sell, Trade ''2024-01-15'' ''AAPL'' 100 150.50 Buy,
      Trade ''2024-02-01'' ''MSFT'' 2 300 Buy]
     [Quote ''AAPL'' 160]
   = [\<lparr>GrowthPoint.date = ''2024-01-15'', value_pt = 16000\<rparr>,
      \<lparr>GrowthPoint.date = ''2024-02-01'', value_pt = 8000\<rparr>]
   \<and> card (set (map TradeRecord.date
        [Trade ''2024-02-01'' ''AAPL'' 50 155 Sell, Trade ''2024-01-15'' ''AAPL'' 100 150.50 Buy,
         Trade ''2024-02-01'' ''MSFT'' 2 300 Buy])) = 2"
proof -
  have e: ?thesis by code_simp
  from growth_series_dates
    [of "\<lambda>s. if s = ''2024-01-15'' then 1705276800000 else 1706745600000"
        "[Trade ''2024-02-01'' ''AAPL'' 50 155 Sell, Trade ''2024-01-15'' ''AAPL'' 100 150.50 Buy,
          Trade ''2024-02-01'' ''MSFT'' 2 300 Buy]"
        "[Quote ''AAPL'' 160]"] e
  show ?thesis by -
qed

section \<open>The running position map of the growth reconstruction\<close>





















section \<open>The sign of the invested value\<close>

lemma existing_of_step:
  "existing_of (holdings_acc (ts @ [t])) s =
     (if s = TradeRecord.symbol t
      then (let ex = existing_of (holdings_acc ts) s in
            case transactionType t of
              Buy \<Rightarrow> \<lparr>Pos.quantity = Pos.quantity ex + TradeRecord.quantity t,
                       totalCost = totalCost ex + TradeRecord.quantity t * TradeRecord.price t,
                       trades = trades ex @ [t]\<rparr>
            | Sell \<Rightarrow> \<lparr>Pos.quantity = Pos.quantity ex - TradeRecord.quantity t,
                        totalCost = totalCost ex - TradeRecord.quantity t * avgCostPerShare ex,
                        trades = trades ex @ [t]\<rparr>)
      else existing_of (holdings_acc ts) s)"
  by (auto simp: holdings_acc_snoc holdings_trade_def Let_def existing_of_Map_set
      split: TransactionType.splits)

lemma cents_nonneg: "0 \<le> c \<Longrightarrow> 0 \<le> cents c"
  by (simp add: cents_def Math_round_def)

lemma only_buys_acc:
  assumes "\<forall>t \<in> set ts. TradeRecord.symbol t = s \<longrightarrow> transactionType t = Buy"
  shows "Pos.quantity (existing_of (holdings_acc ts) s)
           = sum_list (map TradeRecord.quantity (filter (\<lambda>t. TradeRecord.symbol t = s) ts))
       \<and> totalCost (existing_of (holdings_acc ts) s)
           = sum_list (map (\<lambda>t. TradeRecord.quantity t * TradeRecord.price t)
                        (filter (\<lambda>t. TradeRecord.symbol t = s) ts))"
  using assms
proof (induction ts rule: rev_induct)
  case Nil
  show ?case by (simp add: holdings_acc_def existing_of_def Map_get_def)
next
  case (snoc t ts)
  then have IH: "Pos.quantity (existing_of (holdings_acc ts) s)
           = sum_list (map TradeRecord.quantity (filter (\<lambda>t. TradeRecord.symbol t = s) ts))
       \<and> totalCost (existing_of (holdings_acc ts) s)
           = sum_list (map (\<lambda>t. TradeRecord.quantity t * TradeRecord.price t)
                        (filter (\<lambda>t. TradeRecord.symbol t = s) ts))"
    by simp
  show ?case
  proof (cases "TradeRecord.symbol t = s")
    case True
    then have "transactionType t = Buy" using snoc.prems by simp
    then show ?thesis using True IH by (simp add: existing_of_step Let_def)
  next
    case False
    then show ?thesis using IH by (simp add: existing_of_step)
  qed
qed

lemma sum_list_pos_real:
  "xs \<noteq> [] \<Longrightarrow> \<forall>x \<in> set xs. (0::real) < x \<Longrightarrow> 0 < sum_list xs"
  by (induction xs) (auto intro: add_pos_nonneg sum_list_nonneg less_imp_le)

lemma sum_list_nonneg_real:
  "\<forall>x \<in> set xs. (0::real) \<le> x \<Longrightarrow> 0 \<le> sum_list xs"
  by (induction xs) auto

lemma only_buys_entry:
  assumes buys: "\<forall>t \<in> set ts. TradeRecord.symbol t = s
                   \<longrightarrow> transactionType t = Buy \<and> TradeRecord.quantity t > 0"
      and some: "\<exists>t \<in> set ts. TradeRecord.symbol t = s"
  shows "Map_get (calculateHoldings ts) s = Some (existing_of (holdings_acc ts) s)"
    and "(s, existing_of (holdings_acc ts) s) \<in> set (calculateHoldings ts)"
    and "Pos.quantity (existing_of (holdings_acc ts) s) > 0"
proof -
  let ?sel = "filter (\<lambda>t. TradeRecord.symbol t = s) ts"
  let ?e = "existing_of (holdings_acc ts) s"
  have ne: "?sel \<noteq> []" using some by (auto simp: filter_empty_conv)
  have Qpos: "0 < sum_list (map TradeRecord.quantity ?sel)"
    by (rule sum_list_pos_real) (use ne buys in auto)
  have acc: "Pos.quantity ?e = sum_list (map TradeRecord.quantity ?sel)"
    using only_buys_acc[of ts s] buys by simp
  show q: "Pos.quantity ?e > 0" using acc Qpos by simp
  have "Map_get (holdings_acc ts) s \<noteq> None"
  proof
    assume "Map_get (holdings_acc ts) s = None"
    then have "Pos.quantity ?e = 0" by (simp add: existing_of_def)
    with q show False by simp
  qed
  then have get: "Map_get (holdings_acc ts) s = Some ?e"
    by (auto simp: existing_of_def)
  then show "(s, ?e) \<in> set (calculateHoldings ts)"
    using q by (simp add: calculateHoldings_entry)
  show "Map_get (calculateHoldings ts) s = Some ?e"
    using get q
    by (simp add: calculateHoldings_def Map_get_def
        map_of_filter_distinct[OF distinct_holdings_acc])
qed

lemma summary_holding_entry:
  assumes "h \<in> set (holdings (calculatePortfolioSummary ts prices))"
  shows "\<exists>v. Map_get (calculateHoldings ts) (Holding.symbol h) = Some v
             \<and> h = mk_holding prices (Holding.symbol h, v)"
proof -
  from assms obtain k v where kv: "(k, v) \<in> set (calculateHoldings ts)"
    and h: "h = mk_holding prices (k, v)"
    by (auto simp: set_summary_holdings)
  have k: "Holding.symbol h = k" by (simp add: h mk_holding_sel)
  have "distinct (map fst (calculateHoldings ts))"
    using distinct_holdings_acc[of ts] by (simp add: calculateHoldings_def distinct_map_filter)
  then have "Map_get (calculateHoldings ts) k = Some v"
    using kv by (simp add: Map_get_def)
  then show ?thesis using h k by auto
qed

text \<open>
  C7, as amended. The \<open>investedValue\<close> of every Holding is
  \<open>Math.round(totalCost * 100) / 100\<close> of the cost basis that the aggregator holds for
  its symbol. For a symbol with at least one trade, all of whose trades are buys with a
  positive quantity and price, that cost basis is the sum of quantity times price over
  its trades, so the symbol is in the holdings view with a cost basis and an
  \<open>investedValue\<close> of 0 or more; \<open>investedValue\<close> above 0 is not promised (a cost basis
  below half a cent gives 0), and nothing is promised once the symbol has been sold.
\<close>

theorem investedValue_sign:
  "(\<forall>h \<in> set (holdings (calculatePortfolioSummary ts prices)).
      \<exists>v. Map_get (calculateHoldings ts) (Holding.symbol h) = Some v
          \<and> investedValue h = Math_round (totalCost v * 100) / 100)
   \<and> ((\<forall>t \<in> set ts. TradeRecord.symbol t = s
            \<longrightarrow> transactionType t = Buy \<and> TradeRecord.quantity t > 0 \<and> TradeRecord.price t > 0)
        \<and> (\<exists>t \<in> set ts. TradeRecord.symbol t = s)
      \<longrightarrow> (\<exists>v. Map_get (calculateHoldings ts) s = Some v
               \<and> totalCost v = sum_list (map (\<lambda>t. TradeRecord.quantity t * TradeRecord.price t)
                                    (filter (\<lambda>t. TradeRecord.symbol t = s) ts))
               \<and> 0 \<le> totalCost v)
          \<and> (\<exists>h \<in> set (holdings (calculatePortfolioSummary ts prices)). Holding.symbol h = s)
          \<and> (\<forall>h \<in> set (holdings (calculatePortfolioSummary ts prices)).
                Holding.symbol h = s \<longrightarrow> 0 \<le> investedValue h))"
proof (intro conjI impI)
  show "\<forall>h \<in> set (holdings (calculatePortfolioSummary ts prices)).
      \<exists>v. Map_get (calculateHoldings ts) (Holding.symbol h) = Some v
          \<and> investedValue h = Math_round (totalCost v * 100) / 100"
  proof
    fix h
    assume "h \<in> set (holdings (calculatePortfolioSummary ts prices))"
    from summary_holding_entry[OF this] obtain v
      where v: "Map_get (calculateHoldings ts) (Holding.symbol h) = Some v"
        and h: "h = mk_holding prices (Holding.symbol h, v)" by blast
    have "investedValue h = Math_round (totalCost v * 100) / 100"
      by (subst h) (simp add: mk_holding_sel cents_def)
    with v show "\<exists>v. Map_get (calculateHoldings ts) (Holding.symbol h) = Some v
          \<and> investedValue h = Math_round (totalCost v * 100) / 100" by blast
  qed
next
  assume a: "(\<forall>t \<in> set ts. TradeRecord.symbol t = s
            \<longrightarrow> transactionType t = Buy \<and> TradeRecord.quantity t > 0 \<and> TradeRecord.price t > 0)
        \<and> (\<exists>t \<in> set ts. TradeRecord.symbol t = s)"
  then have buys: "\<forall>t \<in> set ts. TradeRecord.symbol t = s
                   \<longrightarrow> transactionType t = Buy \<and> TradeRecord.quantity t > 0"
    and prices: "\<forall>t \<in> set ts. TradeRecord.symbol t = s \<longrightarrow> TradeRecord.price t > 0"
    and some: "\<exists>t \<in> set ts. TradeRecord.symbol t = s"
    by auto
  let ?sel = "filter (\<lambda>t. TradeRecord.symbol t = s) ts"
  let ?e = "existing_of (holdings_acc ts) s"
  note ent = only_buys_entry[OF buys some]
  have cost: "totalCost ?e = sum_list (map (\<lambda>t. TradeRecord.quantity t * TradeRecord.price t) ?sel)"
    using only_buys_acc[of ts s] buys by simp
  have nonneg: "0 \<le> totalCost ?e"
  proof -
    have "0 \<le> TradeRecord.quantity t * TradeRecord.price t"
      if "t \<in> set ts" "TradeRecord.symbol t = s" for t
    proof -
      from that buys prices have "0 < TradeRecord.quantity t" "0 < TradeRecord.price t"
        by blast+
      then show ?thesis by simp
    qed
    then show ?thesis
      unfolding cost by (intro sum_list_nonneg_real) auto
  qed
  show "\<exists>v. Map_get (calculateHoldings ts) s = Some v
               \<and> totalCost v = sum_list (map (\<lambda>t. TradeRecord.quantity t * TradeRecord.price t)
                                    (filter (\<lambda>t. TradeRecord.symbol t = s) ts))
               \<and> 0 \<le> totalCost v"
    using ent(1) cost nonneg by blast
  show "\<exists>h \<in> set (holdings (calculatePortfolioSummary ts prices)). Holding.symbol h = s"
    using ent(2) by (auto simp: set_summary_holdings mk_holding_sel intro!: bexI[of _ "(s, ?e)"])
  show "\<forall>h \<in> set (holdings (calculatePortfolioSummary ts prices)).
                Holding.symbol h = s \<longrightarrow> 0 \<le> investedValue h"
  proof (intro ballI impI)
    fix h
    assume hin: "h \<in> set (holdings (calculatePortfolioSummary ts prices))"
      and hs: "Holding.symbol h = s"
    from summary_holding_entry[OF hin] hs obtain v
      where v: "Map_get (calculateHoldings ts) s = Some v"
        and h: "h = mk_holding prices (s, v)" by auto
    from v ent(1) have "v = ?e" by simp
    then show "0 \<le> investedValue h"
      using nonneg by (subst h) (simp add: mk_holding_sel cents_nonneg)
  qed
qed

theorem investedValue_sign_witness:
  "list_all (\<lambda>t. TradeRecord.symbol t = ''PENNY''
               \<longrightarrow> transactionType t = Buy \<and> TradeRecord.quantity t > 0
                   \<and> TradeRecord.price t > 0)
     [Trade ''2024-01-15'' ''AAPL'' 100 150.50 Buy, Trade ''2024-01-16'' ''PENNY'' 1 0.00390625 Buy,
      Trade ''2024-02-01'' ''AAPL'' 50 155 Sell]
   \<and> map (\<lambda>(k, v). (k, totalCost v))
       (calculateHoldings
          [Trade ''2024-01-15'' ''AAPL'' 100 150.50 Buy,
           Trade ''2024-01-16'' ''PENNY'' 1 0.00390625 Buy,
           Trade ''2024-02-01'' ''AAPL'' 50 155 Sell])
     = [(''AAPL'', 7525), (''PENNY'', 0.00390625)]
   \<and> map (\<lambda>h. (Holding.symbol h, investedValue h))
       (holdings (calculatePortfolioSummary
          [Trade ''2024-01-15'' ''AAPL'' 100 150.50 Buy,
           Trade ''2024-01-16'' ''PENNY'' 1 0.00390625 Buy,
           Trade ''2024-02-01'' ''AAPL'' 50 155 Sell]
          [Quote ''AAPL'' 160]))
     = [(''AAPL'', 7525), (''PENNY'', 0)]
   \<and> Math_round (7525 * 100) / 100 = 7525 \<and> Math_round (0.00390625 * 100) / 100 = 0"
proof -
  have e: ?thesis by code_simp
  from investedValue_sign
    [of "[Trade ''2024-01-15'' ''AAPL'' 100 150.50 Buy,
          Trade ''2024-01-16'' ''PENNY'' 1 0.00390625 Buy,
          Trade ''2024-02-01'' ''AAPL'' 50 155 Sell]" "[Quote ''AAPL'' 160]" "''PENNY''"] e
  show ?thesis by -
qed

text \<open>
  The claim as the specification words it fails in two ways. One share bought at
  0.00390625 is held with a cost basis that rounds to \<open>investedValue\<close> 0. And after buy 10
  at 5, sell 20 at 5 (oversold: quantity -10, cost -50) and buy 20 at 1, the symbol is
  held with quantity 10 and \<open>investedValue\<close> -30.
\<close>

theorem investedValue_counterexample:
  "map (\<lambda>h. (Holding.symbol h, Holding.quantity h, investedValue h))
     (holdings (calculatePortfolioSummary
        [Trade ''2024-01-15'' ''PENNY'' 1 0.00390625 Buy] []))
     = [(''PENNY'', 1, 0)]
   \<and> map (\<lambda>h. (Holding.symbol h, Holding.quantity h, investedValue h))
     (holdings (calculatePortfolioSummary
        [Trade ''2024-01-02'' ''X'' 10 5 Buy, Trade ''2024-01-03'' ''X'' 20 5 Sell,
         Trade ''2024-01-04'' ''X'' 20 1 Buy] []))
     = [(''X'', 10, - 30)]"
  by code_simp

section \<open>The average price of a symbol that was only bought\<close>




section \<open>Rounding to cents\<close>


lemma cents_zero: "cents 0 = 0"
  by (simp add: cents_def Math_round_def)









section \<open>Guarded divisions\<close>

lemma DBL_OVERFLOW_pos: "0 < DBL_OVERFLOW"
  by (simp add: DBL_OVERFLOW_def)

lemma to_js_Fin: "\<bar>x\<bar> < DBL_OVERFLOW \<Longrightarrow> to_js x = Fin x"
  by (auto simp: to_js_def)

lemma to_js_zero: "to_js 0 = Fin 0"
  using DBL_OVERFLOW_pos by (simp add: to_js_Fin)

lemma to_js_not_NaN: "to_js x \<noteq> NaN"
  by (simp add: to_js_def)

lemma jmul_Fin_not_NaN: "x \<noteq> NaN \<Longrightarrow> b \<noteq> 0 \<Longrightarrow> jmul x (Fin b) \<noteq> NaN"
  by (cases x) (simp_all add: to_js_not_NaN)

lemma jdiv_Fin_not_NaN: "x \<noteq> NaN \<Longrightarrow> b \<noteq> 0 \<Longrightarrow> jdiv x (Fin b) \<noteq> NaN"
  by (cases x) (simp_all add: to_js_not_NaN)

lemma jround_not_NaN: "x \<noteq> NaN \<Longrightarrow> jround x \<noteq> NaN"
  by (cases x) simp_all

lemma cents_js_not_NaN:
  "x \<noteq> NaN \<Longrightarrow> jdiv (jround (jmul x (Fin 100))) (Fin 100) \<noteq> NaN"
  by (intro jdiv_Fin_not_NaN jround_not_NaN jmul_Fin_not_NaN) simp_all

lemma calculatePnL_js_not_NaN:
  "fst (calculatePnL_js (Fin i) (Fin c)) \<noteq> NaN \<and> snd (calculatePnL_js (Fin i) (Fin c)) \<noteq> NaN"
proof -
  have a: "jsub (Fin c) (Fin i) \<noteq> NaN" by (simp add: to_js_not_NaN)
  have p: "(if jgt0 (Fin i) then jmul (jdiv (jsub (Fin c) (Fin i)) (Fin i)) (Fin 100) else Fin 0)
             \<noteq> NaN"
  proof (cases "0 < i")
    case True
    then have "jdiv (jsub (Fin c) (Fin i)) (Fin i) \<noteq> NaN"
      by (intro jdiv_Fin_not_NaN a) simp
    then have "jmul (jdiv (jsub (Fin c) (Fin i)) (Fin i)) (Fin 100) \<noteq> NaN"
      by (intro jmul_Fin_not_NaN) simp_all
    with True show ?thesis by simp
  next
    case False
    then show ?thesis by simp
  qed
  show ?thesis
    unfolding calculatePnL_js_def Let_def fst_conv snd_conv
    using cents_js_not_NaN[OF a] cents_js_not_NaN[OF p] by blast
qed

lemma Math_round_abs: "\<bar>Math_round x\<bar> \<le> \<bar>x\<bar> + 1 / 2"
proof -
  have a: "of_int \<lfloor>x + 1 / 2\<rfloor> \<le> x + 1 / 2" by (rule of_int_floor_le)
  have b: "x + 1 / 2 < of_int \<lfloor>x + 1 / 2\<rfloor> + 1" by (rule real_of_int_floor_add_one_gt)
  show ?thesis unfolding Math_round_def using a b by linarith
qed

lemma below_bound: "A \<le> B \<Longrightarrow> B + 1 < M \<Longrightarrow> A < (M::real)"
  by linarith

lemma below_bound_half: "A \<le> B + 1 / 2 \<Longrightarrow> B + 1 < M \<Longrightarrow> A < (M::real)"
  by linarith

lemma cents_js_Fin:
  assumes "\<bar>x * 100\<bar> + 1 < DBL_OVERFLOW"
  shows "jdiv (jround (jmul (Fin x) (Fin 100))) (Fin 100) = Fin (cents x)"
proof -
  have b1: "\<bar>x * 100\<bar> < DBL_OVERFLOW" using assms by (blast intro: below_bound)
  have m: "jmul (Fin x) (Fin 100) = Fin (x * 100)"
    by (simp only: jmul.simps to_js_Fin[OF b1])
  have r: "jround (Fin (x * 100)) = Fin (Math_round (x * 100))" by simp
  have "\<bar>Math_round (x * 100) / 100\<bar> \<le> \<bar>Math_round (x * 100)\<bar>"
    by (simp add: abs_divide)
  also have "\<dots> \<le> \<bar>x * 100\<bar> + 1 / 2" by (rule Math_round_abs)
  finally have "\<bar>Math_round (x * 100) / 100\<bar> \<le> \<bar>x * 100\<bar> + 1 / 2" .
  then have b2: "\<bar>Math_round (x * 100) / 100\<bar> < DBL_OVERFLOW"
    using assms by (blast intro: below_bound_half)
  have d: "jdiv (Fin (Math_round (x * 100))) (Fin 100) = Fin (Math_round (x * 100) / 100)"
    using to_js_Fin[OF b2] by simp
  show ?thesis unfolding m r d cents_def ..
qed

lemma calculatePnL_js_Fin:
  assumes a: "\<bar>(c - i) * 100\<bar> + 1 < DBL_OVERFLOW"
      and p: "0 < i \<longrightarrow> \<bar>(c - i) / i * 100 * 100\<bar> + 1 < DBL_OVERFLOW"
  shows "calculatePnL_js (Fin i) (Fin c)
           = (Fin (absolute (calculatePnL i c)), Fin (percentage (calculatePnL i c)))"
proof -
  have g0: "\<bar>y\<bar> \<le> \<bar>y * 100\<bar>" for y :: real by (simp add: abs_mult)
  have "\<bar>c - i\<bar> \<le> \<bar>(c - i) * 100\<bar>" by (rule g0)
  then have b0: "\<bar>c - i\<bar> < DBL_OVERFLOW" using a by (blast intro: below_bound)
  have s: "jsub (Fin c) (Fin i) = Fin (c - i)"
    by (simp only: jsub.simps to_js_Fin[OF b0])
  have abs_part: "jdiv (jround (jmul (Fin (c - i)) (Fin 100))) (Fin 100) = Fin (cents (c - i))"
    by (rule cents_js_Fin[OF a])
  show ?thesis
  proof (cases "0 < i")
    case True
    with p have b: "\<bar>(c - i) / i * 100 * 100\<bar> + 1 < DBL_OVERFLOW" by simp
    have g1: "\<bar>y\<bar> \<le> \<bar>y * 100 * 100\<bar>" and g2: "\<bar>y * 100\<bar> \<le> \<bar>y * 100 * 100\<bar>"
      for y :: real
      by (simp_all add: abs_mult)
    have "\<bar>(c - i) / i\<bar> \<le> \<bar>(c - i) / i * 100 * 100\<bar>"
      and "\<bar>(c - i) / i * 100\<bar> \<le> \<bar>(c - i) / i * 100 * 100\<bar>"
      by (rule g1, rule g2)
    then have b1: "\<bar>(c - i) / i\<bar> < DBL_OVERFLOW" and b2: "\<bar>(c - i) / i * 100\<bar> < DBL_OVERFLOW"
      using b by (blast intro: below_bound)+
    have g: "jgt0 (Fin i)" using True by simp
    have d: "jdiv (Fin (c - i)) (Fin i) = Fin ((c - i) / i)"
      using True to_js_Fin[OF b1] by simp
    have m: "jmul (Fin ((c - i) / i)) (Fin 100) = Fin ((c - i) / i * 100)"
      by (simp only: jmul.simps to_js_Fin[OF b2])
    have pct_part: "jdiv (jround (jmul (Fin ((c - i) / i * 100)) (Fin 100))) (Fin 100)
                      = Fin (cents ((c - i) / i * 100))"
      by (rule cents_js_Fin[OF b])
    have l: "calculatePnL_js (Fin i) (Fin c) = (Fin (cents (c - i)), Fin (cents ((c - i) / i * 100)))"
      unfolding calculatePnL_js_def Let_def s if_P[OF g] d m abs_part pct_part ..
    show ?thesis unfolding l using True by (simp add: calculatePnL_def Let_def)
  next
    case False
    then have g: "\<not> jgt0 (Fin i)" by simp
    have z: "jdiv (jround (jmul (Fin 0) (Fin 100))) (Fin 100) = Fin (cents 0)"
      by (rule cents_js_Fin) (simp add: DBL_OVERFLOW_def)
    have l: "calculatePnL_js (Fin i) (Fin c) = (Fin (cents (c - i)), Fin (cents 0))"
      unfolding calculatePnL_js_def Let_def s if_not_P[OF g] abs_part z ..
    show ?thesis unfolding l using False by (simp add: calculatePnL_def Let_def)
  qed
qed

lemma calculatePnL_js_guard:
  "\<not> jgt0 jinv \<Longrightarrow> snd (calculatePnL_js jinv jcur) = Fin 0"
  by (simp add: calculatePnL_js_def Let_def to_js_zero Math_round_def)

lemma sectorPercentage_js_Fin:
  "sectorPercentage_js (Fin v) (Fin t)
     = (if 0 < t then jmul (to_js (v / t)) (Fin 100) else Fin 0)"
  by (simp add: sectorPercentage_js_def)

lemma snd_fold_sector_step:
  "snd (fold sector_step hl st) = snd st + sum_list (map currentValue hl)"
  by (induction hl arbitrary: st) (simp_all add: sector_step_def Let_def)

lemma sector_percentages:
  "\<forall>d \<in> set (calculateSectorAllocation hl).
      \<exists>val. percentage_sd d
              = cents (if sum_list (map currentValue hl) > 0
                       then val / sum_list (map currentValue hl) * 100 else 0)"
  by (auto simp: calculateSectorAllocation_def Let_def snd_fold_sector_step)

lemma calculateAveragePrice_guarded:
  "calculateAveragePrice s ts
     = avgCostPerShare
         \<lparr>Pos.quantity = foldl (\<lambda>a t. a + TradeRecord.quantity t) 0
             (filter (\<lambda>t. TradeRecord.symbol t = s \<and> transactionType t = Buy) ts),
          totalCost = foldl (\<lambda>a t. a + TradeRecord.quantity t * TradeRecord.price t) 0
             (filter (\<lambda>t. TradeRecord.symbol t = s \<and> transactionType t = Buy) ts)\<rparr>"
  by (simp add: calculateAveragePrice_def avgCostPerShare_def Let_def)

text \<open>
  C10, as amended. Every division of the core whose denominator may be zero stands
  behind the guard \<open>denominator > 0\<close> and gives 0 when the guard fails: the percentage of
  \<open>calculatePnL\<close> is 0 whenever the invested value is not above 0 (so is the pnlPercent of
  a Holding whose cost basis is not above 0); the average cost per share of a sell is 0
  whenever the held quantity is not above 0, so that such a sell leaves the cost basis
  as it was; the averagePrice of a Holding, the result of \<open>calculateAveragePrice\<close> and the
  percentage of a sector are the same guarded quotients. On the numbers with infinities
  and NaN the guard also fails for NaN and for a negative infinity. So no division by
  zero takes place: on finite arguments \<open>calculatePnL\<close> never returns NaN, the guarded
  quotient is the exact quotient unless that overflows, and \<open>calculatePnL\<close> returns the
  finite values of the exact computation whenever no intermediate result reaches the
  overflow threshold. That an output is never infinite or NaN is not promised.
\<close>

theorem divisions_guarded:
  "(\<not> invested > 0 \<longrightarrow> percentage (calculatePnL invested current) = 0)
   \<and> (\<not> Pos.quantity ex > 0 \<longrightarrow> avgCostPerShare ex = 0)
   \<and> (transactionType t = Sell
        \<and> \<not> Pos.quantity (existing_of (holdings_acc ts) (TradeRecord.symbol t)) > 0
      \<longrightarrow> totalCost (existing_of (holdings_acc (ts @ [t])) (TradeRecord.symbol t))
            = totalCost (existing_of (holdings_acc ts) (TradeRecord.symbol t)))
   \<and> averagePrice (mk_holding prices e) = cents (avgCostPerShare (snd e))
   \<and> (\<not> totalCost (snd e) > 0 \<longrightarrow> pnlPercent (mk_holding prices e) = 0)
   \<and> calculateAveragePrice s ts
       = avgCostPerShare
           \<lparr>Pos.quantity = foldl (\<lambda>a t. a + TradeRecord.quantity t) 0
               (filter (\<lambda>t. TradeRecord.symbol t = s \<and> transactionType t = Buy) ts),
            totalCost = foldl (\<lambda>a t. a + TradeRecord.quantity t * TradeRecord.price t) 0
               (filter (\<lambda>t. TradeRecord.symbol t = s \<and> transactionType t = Buy) ts)\<rparr>
   \<and> (\<forall>d \<in> set (calculateSectorAllocation hl).
         \<exists>val. percentage_sd d
                 = cents (if sum_list (map currentValue hl) > 0
                          then val / sum_list (map currentValue hl) * 100 else 0))
   \<and> (\<not> jgt0 jinv \<longrightarrow> snd (calculatePnL_js jinv jcur) = Fin 0)
   \<and> (\<not> jgt0 jq \<longrightarrow> avgCostPerShare_js jq jc = Fin 0)
   \<and> (\<not> jgt0 jt \<longrightarrow> sectorPercentage_js jv jt = Fin 0)
   \<and> avgCostPerShare_js (Fin (Pos.quantity ex)) (Fin (totalCost ex)) = to_js (avgCostPerShare ex)
   \<and> sectorPercentage_js (Fin v) (Fin tv)
       = (if 0 < tv then jmul (to_js (v / tv)) (Fin 100) else Fin 0)
   \<and> fst (calculatePnL_js (Fin invested) (Fin current)) \<noteq> NaN
   \<and> snd (calculatePnL_js (Fin invested) (Fin current)) \<noteq> NaN
   \<and> (\<bar>(current - invested) * 100\<bar> + 1 < DBL_OVERFLOW
        \<and> (0 < invested
             \<longrightarrow> \<bar>(current - invested) / invested * 100 * 100\<bar> + 1 < DBL_OVERFLOW)
      \<longrightarrow> calculatePnL_js (Fin invested) (Fin current)
            = (Fin (absolute (calculatePnL invested current)),
               Fin (percentage (calculatePnL invested current))))"
proof (intro conjI)
  show "\<not> invested > 0 \<longrightarrow> percentage (calculatePnL invested current) = 0"
    by (simp add: calculatePnL_def Let_def cents_zero)
  show "\<not> Pos.quantity ex > 0 \<longrightarrow> avgCostPerShare ex = 0"
    by (simp add: avgCostPerShare_def)
  show "transactionType t = Sell
        \<and> \<not> Pos.quantity (existing_of (holdings_acc ts) (TradeRecord.symbol t)) > 0
      \<longrightarrow> totalCost (existing_of (holdings_acc (ts @ [t])) (TradeRecord.symbol t))
            = totalCost (existing_of (holdings_acc ts) (TradeRecord.symbol t))"
    by (simp add: existing_of_step Let_def avgCostPerShare_def)
  show "averagePrice (mk_holding prices e) = cents (avgCostPerShare (snd e))"
    by (simp add: mk_holding_def Let_def avgCostPerShare_def)
  show "\<not> totalCost (snd e) > 0 \<longrightarrow> pnlPercent (mk_holding prices e) = 0"
    by (simp add: mk_holding_def calculatePnL_def Let_def cents_zero)
  show "calculateAveragePrice s ts
       = avgCostPerShare
           \<lparr>Pos.quantity = foldl (\<lambda>a t. a + TradeRecord.quantity t) 0
               (filter (\<lambda>t. TradeRecord.symbol t = s \<and> transactionType t = Buy) ts),
            totalCost = foldl (\<lambda>a t. a + TradeRecord.quantity t * TradeRecord.price t) 0
               (filter (\<lambda>t. TradeRecord.symbol t = s \<and> transactionType t = Buy) ts)\<rparr>"
    by (rule calculateAveragePrice_guarded)
  show "\<forall>d \<in> set (calculateSectorAllocation hl).
         \<exists>val. percentage_sd d
                 = cents (if sum_list (map currentValue hl) > 0
                          then val / sum_list (map currentValue hl) * 100 else 0)"
    by (rule sector_percentages)
  show "\<not> jgt0 jinv \<longrightarrow> snd (calculatePnL_js jinv jcur) = Fin 0"
    by (simp add: calculatePnL_js_guard)
  show "\<not> jgt0 jq \<longrightarrow> avgCostPerShare_js jq jc = Fin 0"
    by (simp add: avgCostPerShare_js_def)
  show "\<not> jgt0 jt \<longrightarrow> sectorPercentage_js jv jt = Fin 0"
    by (simp add: sectorPercentage_js_def)
  show "avgCostPerShare_js (Fin (Pos.quantity ex)) (Fin (totalCost ex))
          = to_js (avgCostPerShare ex)"
    by (simp add: avgCostPerShare_js_def avgCostPerShare_def to_js_zero)
  show "sectorPercentage_js (Fin v) (Fin tv)
       = (if 0 < tv then jmul (to_js (v / tv)) (Fin 100) else Fin 0)"
    by (rule sectorPercentage_js_Fin)
  show "fst (calculatePnL_js (Fin invested) (Fin current)) \<noteq> NaN"
    using calculatePnL_js_not_NaN by blast
  show "snd (calculatePnL_js (Fin invested) (Fin current)) \<noteq> NaN"
    using calculatePnL_js_not_NaN by blast
  show "\<bar>(current - invested) * 100\<bar> + 1 < DBL_OVERFLOW
        \<and> (0 < invested
             \<longrightarrow> \<bar>(current - invested) / invested * 100 * 100\<bar> + 1 < DBL_OVERFLOW)
      \<longrightarrow> calculatePnL_js (Fin invested) (Fin current)
            = (Fin (absolute (calculatePnL invested current)),
               Fin (percentage (calculatePnL invested current)))"
    using calculatePnL_js_Fin by blast
qed

theorem divisions_guarded_witness:
  "(\<not> (0::real) > 0
    \<and> calculatePnL 0 5 = \<lparr>absolute = 5, percentage = 0\<rparr>
    \<and> \<not> Pos.quantity \<lparr>Pos.quantity = - 10, totalCost = - 50\<rparr> > 0
    \<and> avgCostPerShare \<lparr>Pos.quantity = - 10, totalCost = - 50\<rparr> = 0
    \<and> map (\<lambda>(k, v). (k, Pos.quantity v, totalCost v))
        (holdings_acc [Trade ''2024-01-02'' ''X'' 10 5 Buy, Trade ''2024-01-03'' ''X'' 20 5 Sell])
      = [(''X'', - 10, - 50)]
    \<and> map (\<lambda>(k, v). (k, Pos.quantity v, totalCost v))
        (holdings_acc ([Trade ''2024-01-02'' ''X'' 10 5 Buy, Trade ''2024-01-03'' ''X'' 20 5 Sell]
                       @ [Trade ''2024-01-04'' ''X'' 5 5 Sell]))
      = [(''X'', - 15, - 50)]
    \<and> pnlPercent (mk_holding [Quote ''X'' 1]
         (''X'', \<lparr>Pos.quantity = 3, totalCost = 0, trades = []\<rparr>)) = 0
    \<and> calculateAveragePrice ''X''
         [Trade ''2024-01-02'' ''X'' 10 5 Buy, Trade ''2024-01-03'' ''X'' 20 5 Sell] = 5
    \<and> map (\<lambda>d. (name_sd d, value_sd d, percentage_sd d))
        (calculateSectorAllocation
           [\<lparr>Holding.symbol = ''AAPL'', Holding.quantity = 1, averagePrice = 0,
             investedValue = 0, currentValue = 0, pnl = 0, pnlPercent = 0\<rparr>])
      = [(''Technology'', 0, 0)]
    \<and> \<not> jgt0 NaN \<and> \<not> jgt0 (Fin 0))
   \<and> (\<bar>(5 - 0) * 100 :: real\<bar> + 1 < DBL_OVERFLOW
      \<and> calculatePnL_js (Fin 0) (Fin 5) = (Fin 5, Fin 0)
      \<and> avgCostPerShare_js (Fin (- 10)) (Fin (- 50)) = Fin 0
      \<and> snd (calculatePnL_js NaN (Fin 5)) = Fin 0
      \<and> sectorPercentage_js (Fin 0) (Fin 0) = Fin 0)"
proof -
  have r: "\<not> (0::real) > 0
    \<and> calculatePnL 0 5 = \<lparr>absolute = 5, percentage = 0\<rparr>
    \<and> \<not> Pos.quantity \<lparr>Pos.quantity = - 10, totalCost = - 50\<rparr> > 0
    \<and> avgCostPerShare \<lparr>Pos.quantity = - 10, totalCost = - 50\<rparr> = 0
    \<and> map (\<lambda>(k, v). (k, Pos.quantity v, totalCost v))
        (holdings_acc [Trade ''2024-01-02'' ''X'' 10 5 Buy, Trade ''2024-01-03'' ''X'' 20 5 Sell])
      = [(''X'', - 10, - 50)]
    \<and> map (\<lambda>(k, v). (k, Pos.quantity v, totalCost v))
        (holdings_acc ([Trade ''2024-01-02'' ''X'' 10 5 Buy, Trade ''2024-01-03'' ''X'' 20 5 Sell]
                       @ [Trade ''2024-01-04'' ''X'' 5 5 Sell]))
      = [(''X'', - 15, - 50)]
    \<and> pnlPercent (mk_holding [Quote ''X'' 1]
         (''X'', \<lparr>Pos.quantity = 3, totalCost = 0, trades = []\<rparr>)) = 0
    \<and> calculateAveragePrice ''X''
         [Trade ''2024-01-02'' ''X'' 10 5 Buy, Trade ''2024-01-03'' ''X'' 20 5 Sell] = 5
    \<and> map (\<lambda>d. (name_sd d, value_sd d, percentage_sd d))
        (calculateSectorAllocation
           [\<lparr>Holding.symbol = ''AAPL'', Holding.quantity = 1, averagePrice = 0,
             investedValue = 0, currentValue = 0, pnl = 0, pnlPercent = 0\<rparr>])
      = [(''Technology'', 0, 0)]
    \<and> \<not> jgt0 NaN \<and> \<not> jgt0 (Fin 0)"
    by code_simp
  have b: "\<bar>(5 - 0) * 100 :: real\<bar> + 1 < DBL_OVERFLOW"
    by (simp add: DBL_OVERFLOW_def)
  have p: "calculatePnL 0 5 = \<lparr>absolute = 5, percentage = 0\<rparr>"
    using r by (rule conjE[OF conjunct2])
  have j1: "calculatePnL_js (Fin 0) (Fin 5) = (Fin 5, Fin 0)"
    using calculatePnL_js_Fin[of 5 0, OF b] by (simp add: p)
  have j: "\<bar>(5 - 0) * 100 :: real\<bar> + 1 < DBL_OVERFLOW
      \<and> calculatePnL_js (Fin 0) (Fin 5) = (Fin 5, Fin 0)
      \<and> avgCostPerShare_js (Fin (- 10)) (Fin (- 50)) = Fin 0
      \<and> snd (calculatePnL_js NaN (Fin 5)) = Fin 0
      \<and> sectorPercentage_js (Fin 0) (Fin 0) = Fin 0"
    using b j1
    by (simp add: avgCostPerShare_js_def sectorPercentage_js_def calculatePnL_js_guard)
  have e: ?thesis using r j by (rule conjI)
  from divisions_guarded
    [where invested = 0 and current = 5
       and ex = "\<lparr>Pos.quantity = - 10, totalCost = - 50\<rparr>"
       and t = "Trade ''2024-01-04'' ''X'' 5 5 Sell"
       and ts = "[Trade ''2024-01-02'' ''X'' 10 5 Buy, Trade ''2024-01-03'' ''X'' 20 5 Sell]"
       and prices = "[Quote ''X'' 1]"
       and e = "(''X'', \<lparr>Pos.quantity = 3, totalCost = 0, trades = []\<rparr>)"
       and s = "''X''"
       and hl = "[\<lparr>Holding.symbol = ''AAPL'', Holding.quantity = 1, averagePrice = 0,
                   investedValue = 0, currentValue = 0, pnl = 0, pnlPercent = 0\<rparr>]"
       and jinv = NaN and jcur = "Fin 5" and jq = "Fin (- 10)" and jc = "Fin (- 50)"
       and jv = "Fin 0" and jt = "Fin 0" and v = 0 and tv = 0] e
  show ?thesis by -
qed

text \<open>
  The claim as the specification words it (no output is NaN or infinite) fails on
  finite inputs that pass the validation of the ingestion layer. One share bought at 1
  and quoted at 10^308: invested value 1 and current value 10^308 give an infinite pnl
  and pnlPercent, because the products by 100 overflow. A quantity, price and quote of
  10^200: cost and current value are both the overflowed product, an infinity, and their
  difference and the percentage are NaN although the guard \<open>investedValue > 0\<close> holds.
\<close>

theorem overflow_counterexample:
  "calculatePnL_js (Fin 1) (Fin (10 ^ 308)) = (PInf, PInf)
   \<and> jgt0 (jmul (Fin (10 ^ 200)) (Fin (10 ^ 200)))
   \<and> calculatePnL_js (jmul (Fin (10 ^ 200)) (Fin (10 ^ 200)))
        (jmul (Fin (10 ^ 200)) (Fin (10 ^ 200))) = (NaN, NaN)"
  by (simp add: calculatePnL_js_def to_js_def DBL_OVERFLOW_def Let_def Math_round_def)

end
